theory Spec2Isabelle
  imports Main "HOL-Library.Sublist"
begin

section \<open>The sign-language interpreter component (src/components/sign.jsx)\<close>

text \<open>
  The component keeps six pieces of React state and three refs. Its handlers are embedded
  as functions on a record of that state. Everything asynchronous (the camera request, the
  PNG encode of a captured frame, the call to the generative-AI service) is split at its
  suspension point: the part that runs when the handler is invoked, and the part that runs
  when the browser or the service answers. The answers themselves are events of a step
  function, and so is a render of the component, so a run of the component is a list of
  events.
\<close>

subsection \<open>JavaScript values that reach the component\<close>

datatype jsval = Undefined | Str string

text \<open>Interpolation of a value into a template literal.\<close>

fun render :: "jsval \<Rightarrow> string" where
  "render Undefined = ''undefined''"
| "render (Str s) = s"

text \<open>\<^verbatim>\<open>String.prototype.split\<close> with a one-character separator.\<close>

fun js_split :: "char \<Rightarrow> string \<Rightarrow> string list" where
  "js_split c [] = [[]]"
| "js_split c (x # xs) =
     (if x = c then [] # js_split c xs
      else (case js_split c xs of
              [] \<Rightarrow> [[x]]
            | y # ys \<Rightarrow> (x # y) # ys))"

text \<open>Array indexing: an index past the end reads \<^verbatim>\<open>undefined\<close>.\<close>

definition js_index :: "string list \<Rightarrow> nat \<Rightarrow> jsval" where
  "js_index xs i = (if i < length xs then Str (xs ! i) else Undefined)"

text \<open>
  The value caught by the \<^verbatim>\<open>catch\<close> block of the submitter: an error object with a
  \<^verbatim>\<open>message\<close> and, possibly, a \<^verbatim>\<open>response\<close>; the handler reads
  \<^verbatim>\<open>error.response.data.error.message\<close>, and each object on that path may be absent.
\<close>

datatype api_error = ApiError (error_message: jsval)
datatype api_data = ApiData (data_error: "api_error option")
datatype api_response = ApiResponse (response_data: "api_data option")
datatype thrown = Thrown (thrown_message: jsval) (thrown_response: "api_response option")

text \<open>How the awaited service call ends: \<^verbatim>\<open>response.text()\<close> returns, or something throws.\<close>

datatype outcome = Returned string | Threw thrown

text \<open>One element of the array passed to \<^verbatim>\<open>generateContent\<close>.\<close>

datatype part = TextPart string | InlineData (data: jsval) (mimeType: string)

definition HARDCODED_PROMPT :: string where
  "HARDCODED_PROMPT =
     ''Analyze the provided sequence of images or video frames depicting sign language gestures. Your task is to:\<newline>'' @
     ''\<newline>'' @
     ''1. Interpret the signs accurately, considering:\<newline>'' @
     ''   - Hand shapes, movements, and positions\<newline>'' @
     ''   - Facial expressions and body language\<newline>'' @
     ''   - Any contextual clues within the images\<newline>'' @
     ''\<newline>'' @
     ''2. Translate the signs into natural, conversational English that captures:\<newline>'' @
     ''   - The literal meaning of the signs\<newline>'' @
     ''   - The underlying emotion and tone\<newline>'' @
     ''   - Any cultural nuances specific to the sign language being used\<newline>'' @
     ''\<newline>'' @
     ''3. Formulate a response as if you're engaged in a real conversation:\<newline>'' @
     ''   - Use a friendly, approachable tone\<newline>'' @
     ''   - Reflect the emotion conveyed in the signs\<newline>'' @
     ''   - Keep responses concise but natural-sounding\<newline>'' @
     ''\<newline>'' @
     ''4. If the visual input is unclear or insufficient:\<newline>'' @
     ''   - Politely mention which aspects are ambiguous\<newline>'' @
     ''   - Suggest that additional images or video could help with a more accurate interpretation\<newline>'' @
     ''   - Provide your best interpretation based on available information\<newline>'' @
     ''\<newline>'' @
     ''5. Be aware of and respect:\<newline>'' @
     ''   - Different sign language variants (e.g., ASL, BSL, Auslan)\<newline>'' @
     ''   - The importance of non-manual markers in conveying meaning\<newline>'' @
     ''   - The three-dimensional nature of sign language when interpreting 2D images\<newline>'' @
     ''\<newline>'' @
     ''6. If you recognize specific signs or phrases, mention them in your explanation to demonstrate your reasoning.\<newline>'' @
     ''\<newline>'' @
     ''7. If the signs seem to be part of a longer conversation, acknowledge this and provide context for your response.\<newline>'' @
     ''\<newline>'' @
     ''Remember, the goal is to bridge communication effectively, ensuring the essence of the signed message is conveyed accurately and naturally in your response.''"

subsection \<open>Component state\<close>

text \<open>
  The first six fields are the \<^verbatim>\<open>useState\<close> cells; \<open>videoRef\<close> is \<open>None\<close> when no
  video element is mounted and \<open>Some b\<close> when one is, \<open>b\<close> telling whether its
  \<^verbatim>\<open>srcObject\<close> is bound; \<open>canvasRef\<close> and \<open>streamRef\<close> tell whether the ref is set.
  \<open>renderedFrames\<close> is the constant \<^verbatim>\<open>frameSequence\<close> of the last render (line 50), which
  is what the handlers of that render close over; the field \<open>frameSequence\<close> is the state
  cell itself, with every update applied that has been made since.
  The remaining fields record the environment: whether the camera request is still
  pending, whether the capture interval is armed, how many encodes are under way, the
  requests handed to the service, how many of them have not settled, and the lines written
  with \<^verbatim>\<open>console.error\<close>.
\<close>

record session =
  isRecording :: bool
  response :: string
  isProcessing :: bool
  error :: "string option"
  frameSequence :: "jsval list"
  isSending :: bool
  renderedFrames :: "jsval list"
  videoRef :: "bool option"
  canvasRef :: bool
  streamRef :: bool
  cameraPending :: bool
  frameCaptureInterval :: bool
  encodes :: nat
  calls :: "part list list"
  inflight :: nat
  console :: "string list"

text \<open>The state after the first render: both elements mounted, the camera requested.\<close>

definition mounted :: session where
  "mounted = \<lparr> isRecording = False, response = [], isProcessing = False, error = None,
     frameSequence = [], isSending = False, renderedFrames = [], videoRef = Some False, canvasRef = True,
     streamRef = False, cameraPending = True, frameCaptureInterval = False, encodes = 0,
     calls = [], inflight = 0, console = [] \<rparr>"

definition console_error :: "string \<Rightarrow> session \<Rightarrow> session" where
  "console_error msg s = s\<lparr>console := console s @ [msg]\<rparr>"

subsection \<open>Camera source\<close>

text \<open>
  \<^verbatim>\<open>setupCamera\<close> (lines 63-74) after \<^verbatim>\<open>getUserMedia\<close> resolved, and after it
  rejected.
\<close>

definition setupCamera_resolved :: "session \<Rightarrow> session" where
  "setupCamera_resolved s =
     (let s1 = s\<lparr>streamRef := True\<rparr>
      in (case videoRef s1 of
            None \<Rightarrow> s1
          | Some _ \<Rightarrow> s1\<lparr>videoRef := Some True\<rparr>))"

definition camera_message :: string where
  "camera_message = ''Error: Unable to access camera. Please check your permissions and try again.''"

definition setupCamera_rejected :: "session \<Rightarrow> session" where
  "setupCamera_rejected s =
     (console_error ''Error accessing camera:'' s)\<lparr>error := Some camera_message\<rparr>"

subsection \<open>Frame sampler\<close>

text \<open>
  \<^verbatim>\<open>captureFrame\<close> (lines 91-110) draws the video into the canvas and starts the
  encode; the frame reaches the state only when the encode and the file reader have
  finished with a data URL, which is the event \<open>EncodeDone\<close> below.
\<close>

definition captureFrame :: "session \<Rightarrow> session" where
  "captureFrame s =
     (if videoRef s \<noteq> None \<and> canvasRef s then s\<lparr>encodes := Suc (encodes s)\<rparr> else s)"

text \<open>\<^verbatim>\<open>reader.onloadend\<close>, with \<open>r\<close> the data URL in \<^verbatim>\<open>reader.result\<close>.\<close>

definition onloadend :: "string \<Rightarrow> session \<Rightarrow> session" where
  "onloadend r s =
     (let base64data = js_index (js_split CHR '','' r) 1
      in s\<lparr>frameSequence := frameSequence s @ [base64data]\<rparr>)"

definition startRecording :: "session \<Rightarrow> session" where
  "startRecording s =
     (if videoRef s = Some True
      then captureFrame (s\<lparr>isRecording := True, error := None, frameSequence := []\<rparr>)
      else s)"

subsection \<open>Batch submitter\<close>

definition imageParts :: "jsval list \<Rightarrow> part list" where
  "imageParts frames = map (\<lambda>frame. InlineData frame ''image/png'') frames"

definition request :: "jsval list \<Rightarrow> part list" where
  "request frames = TextPart HARDCODED_PROMPT # imageParts frames"

text \<open>
  \<^verbatim>\<open>sendVideoSequenceToGoogleGenerativeAI\<close> (lines 120-143) up to the awaited
  \<^verbatim>\<open>generateContent\<close>: the empty-batch return, or the two state updates and the one
  call. The argument is always an array here, so \<^verbatim>\<open>!frames\<close> is false.
\<close>

definition sendVideoSequenceToGoogleGenerativeAI :: "jsval list \<Rightarrow> session \<Rightarrow> session" where
  "sendVideoSequenceToGoogleGenerativeAI frames s =
     (if frames = []
      then (console_error ''Frame sequence must be present to send to the API'' s)
             \<lparr>isProcessing := False\<rparr>
      else s\<lparr>isSending := True, response := [],
             calls := calls s @ [request frames], inflight := Suc (inflight s)\<rparr>)"

text \<open>
  The \<^verbatim>\<open>catch\<close> block (lines 148-155). Reading \<^verbatim>\<open>error.response.data.error.message\<close> raises a
  TypeError when \<^verbatim>\<open>data\<close> or \<^verbatim>\<open>data.error\<close> is missing: \<open>envelope_message\<close> is
  \<open>None\<close> then, and the block is left before \<^verbatim>\<open>setError\<close> is called.
\<close>

datatype completion = Normal | TypeError

definition envelope_message :: "api_response \<Rightarrow> jsval option" where
  "envelope_message r =
     (case response_data r of
        None \<Rightarrow> None
      | Some d \<Rightarrow> (case data_error d of
                    None \<Rightarrow> None
                  | Some e \<Rightarrow> Some (error_message e)))"

definition catch_block :: "thrown \<Rightarrow> session \<Rightarrow> completion \<times> session" where
  "catch_block e s =
     (let s1 = console_error ''Error calling Google Generative AI API:'' s
      in (case thrown_response e of
            Some r \<Rightarrow>
              (let s2 = console_error
                          (''API Response Error: '' @
                             (case response_data r of
                                None \<Rightarrow> ''undefined''
                              | Some _ \<Rightarrow> ''[object Object]'')) s1
               in (case envelope_message r of
                     None \<Rightarrow> (TypeError, s2)
                   | Some m \<Rightarrow>
                       (Normal, s2\<lparr>error := Some (''Error processing sign language: '' @
                                                   render m @ ''. Please try again.'')\<rparr>)))
          | None \<Rightarrow>
              (Normal, s1\<lparr>error := Some (''Unexpected error: '' @
                                          render (thrown_message e) @
                                          ''. Please try again.'')\<rparr>)))"

definition finally_block :: "session \<Rightarrow> session" where
  "finally_block s = s\<lparr>isProcessing := False, isSending := False\<rparr>"

text \<open>
  The rest of the submitter (lines 145-159), run when the awaited call has settled. The completion tells
  whether the promise of the submitter is fulfilled or rejected; nobody awaits it.
\<close>

definition settled :: "outcome \<Rightarrow> session \<Rightarrow> completion \<times> session" where
  "settled out s =
     (case out of
        Returned text \<Rightarrow> (Normal, finally_block (s\<lparr>response := text\<rparr>))
      | Threw e \<Rightarrow> (case catch_block e s of (c, s') \<Rightarrow> (c, finally_block s')))"

text \<open>
  \<^verbatim>\<open>stopRecording\<close> (lines 85-89) hands the submitter the \<^verbatim>\<open>frameSequence\<close> it closed
  over: the frames of the last render, not those of an update that is not yet rendered.
\<close>

definition stopRecording :: "session \<Rightarrow> session" where
  "stopRecording s =
     sendVideoSequenceToGoogleGenerativeAI (renderedFrames s)
       (s\<lparr>isRecording := False, isProcessing := True\<rparr>)"

subsection \<open>Presentation\<close>

text \<open>What the interpretation panel renders. An empty error string is falsy.\<close>

datatype panel = Spinner | ErrorText string | ResponseText string

definition panel :: "session \<Rightarrow> panel" where
  "panel s =
     (if isProcessing s \<or> isSending s then Spinner
      else (case error s of
              Some msg \<Rightarrow> if msg \<noteq> [] then ErrorText msg else ResponseText (response s)
            | None \<Rightarrow> ResponseText (response s)))"

subsection \<open>Events\<close>

text \<open>
  The effect that depends on \<^verbatim>\<open>isRecording\<close> (lines 112-118) clears the old interval
  and arms a new one when recording: after every render the interval is armed exactly when
  \<^verbatim>\<open>isRecording\<close> holds.
\<close>

definition recording_effect :: "session \<Rightarrow> session" where
  "recording_effect s = s\<lparr>frameCaptureInterval := isRecording s\<rparr>"

text \<open>A render gives the handlers the frames that the state cell holds at that moment.\<close>

definition rerender :: "session \<Rightarrow> session" where
  "rerender s = s\<lparr>renderedFrames := frameSequence s\<rparr>"

datatype event =
    CameraGranted
  | CameraDenied
  | Click
  | Tick
  | EncodeDone string
  | Settled outcome
  | Render

text \<open>
  An event that cannot happen in the state gives \<open>None\<close>: the camera answers once, the
  interval fires only while armed, an encode or a call finishes only if one is under way.
  The button (line 180) calls \<^verbatim>\<open>stopRecording\<close> while recording and
  \<^verbatim>\<open>startRecording\<close> otherwise. The updates made in the handler of a click are
  rendered before any other event is handled, so a click ends with a render, and the
  handler that the button carries always agrees with \<^verbatim>\<open>isRecording\<close>, which only clicks
  change. The updates made when the camera answers, when an encode ends or when the call
  settles are rendered at some later moment: the event \<open>Render\<close>, which may come before or
  after the next click.
\<close>

fun step :: "session \<Rightarrow> event \<Rightarrow> session option" where
  "step s CameraGranted =
     (if cameraPending s then Some (setupCamera_resolved (s\<lparr>cameraPending := False\<rparr>)) else None)"
| "step s CameraDenied =
     (if cameraPending s then Some (setupCamera_rejected (s\<lparr>cameraPending := False\<rparr>)) else None)"
| "step s Click =
     Some (rerender (recording_effect
             (if isRecording s then stopRecording s else startRecording s)))"
| "step s Tick =
     (if frameCaptureInterval s then Some (captureFrame s) else None)"
| "step s (EncodeDone r) =
     (if 0 < encodes s then Some (onloadend r (s\<lparr>encodes := encodes s - 1\<rparr>)) else None)"
| "step s (Settled out) =
     (if 0 < inflight s then Some (snd (settled out (s\<lparr>inflight := inflight s - 1\<rparr>))) else None)"
| "step s Render = Some (rerender s)"

fun run :: "session \<Rightarrow> event list \<Rightarrow> session option" where
  "run s [] = Some s"
| "run s (e # es) = (case step s e of None \<Rightarrow> None | Some s' \<Rightarrow> run s' es)"

subsection \<open>States named in the statements below\<close>

text \<open>The state once the camera request has been refused.\<close>

definition denied :: session where
  "denied = mounted\<lparr>error := Some camera_message, cameraPending := False,
                     console := [''Error accessing camera:'']\<rparr>"

text \<open>The state once the camera is bound and the button has been pressed for the first time.\<close>

definition recording :: session where
  "recording = mounted\<lparr>isRecording := True, videoRef := Some True, streamRef := True,
                        cameraPending := False, frameCaptureInterval := True, encodes := 1\<rparr>"

text \<open>
  Three frames have arrived while recording and have been rendered, and no encode is under
  way.
\<close>

definition three_frames :: session where
  "three_frames = recording\<lparr>frameSequence := [Str ''QQ=='', Str ''Qg=='', Str ''Qw==''],
                             renderedFrames := [Str ''QQ=='', Str ''Qg=='', Str ''Qw==''],
                             encodes := 0\<rparr>"

text \<open>The three frames have been submitted and the service has answered \<open>HELLO\<close>.\<close>

definition shown_hello :: session where
  "shown_hello = three_frames\<lparr>isRecording := False, frameCaptureInterval := False,
      response := ''HELLO'',
      calls := [request [Str ''QQ=='', Str ''Qg=='', Str ''Qw=='']]\<rparr>"

text \<open>The frames that the completed encodes of a run deliver, in the order of completion.\<close>

fun arrivals :: "event list \<Rightarrow> jsval list" where
  "arrivals [] = []"
| "arrivals (EncodeDone r # es) = js_index (js_split CHR '','' r) 1 # arrivals es"
| "arrivals (_ # es) = arrivals es"

text \<open>
  A run that stays within one recording session: every event can happen, and the button
  is never pressed while the component is not recording (which would start a new session).
\<close>

fun same_session :: "session \<Rightarrow> event list \<Rightarrow> bool" where
  "same_session s [] = True"
| "same_session s (e # es) =
     (if e = Click \<and> \<not> isRecording s then False
      else (case step s e of None \<Rightarrow> False | Some s' \<Rightarrow> same_session s' es))"

text \<open>
  A run in which no recording is started while a call to the service is still under way.
\<close>

fun no_overlap :: "session \<Rightarrow> event list \<Rightarrow> bool" where
  "no_overlap s [] = True"
| "no_overlap s (e # es) =
     (if e = Click \<and> \<not> isRecording s \<and> 0 < inflight s then False
      else (case step s e of None \<Rightarrow> False | Some s' \<Rightarrow> no_overlap s' es))"

text \<open>
  What holds of every state of a run from \<open>mounted\<close>: the canvas and the video element are
  there, and the frames that the handlers closed over are an initial part of the frames in
  the state cell.
\<close>

definition wired :: "session \<Rightarrow> bool" where
  "wired s \<longleftrightarrow> canvasRef s \<and> videoRef s \<noteq> None \<and> prefix (renderedFrames s) (frameSequence s)"

text \<open>
  What the file reader delivers for the PNG blob of a captured frame: a data URL of type
  \<open>image/png\<close> whose payload is base64 text.
\<close>

definition base64_alphabet :: string where
  "base64_alphabet = ''ABCDEFGHIJKLMNOPQRSTUVWXYZabcdefghijklmnopqrstuvwxyz0123456789+/=''"

definition base64 :: "string \<Rightarrow> bool" where
  "base64 b \<longleftrightarrow> list_all (\<lambda>c. c \<in> set base64_alphabet) b"






text \<open>
  What holds of every state of a run without overlapping attempts: while the component
  records or a call is under way no error is stored, at most one call is under way and
  none while recording, and nothing has started before the camera has answered.
\<close>

definition quiet :: "session \<Rightarrow> bool" where
  "quiet s \<longleftrightarrow>
     (isRecording s \<or> 0 < inflight s \<longrightarrow> error s = None) \<and>
     (isRecording s \<longrightarrow> inflight s = 0) \<and>
     inflight s \<le> 1 \<and>
     (cameraPending s \<longrightarrow> \<not> isRecording s \<and> inflight s = 0 \<and> videoRef s \<noteq> Some True)"

section \<open>Properties\<close>

subsection \<open>Auxiliary facts\<close>

lemmas handler_defs =
  setupCamera_resolved_def setupCamera_rejected_def console_error_def captureFrame_def
  onloadend_def startRecording_def stopRecording_def sendVideoSequenceToGoogleGenerativeAI_def
  settled_def catch_block_def finally_block_def envelope_message_def recording_effect_def
  rerender_def







lemma run_append:
  "run s (xs @ ys) = (case run s xs of None \<Rightarrow> None | Some s' \<Rightarrow> run s' ys)"
  by (induction xs arbitrary: s) (auto split: option.splits)

lemma startRecording_unbound: "videoRef s \<noteq> Some True \<Longrightarrow> startRecording s = s"
  by (simp add: startRecording_def)

lemma step_denied: "step mounted CameraDenied = Some denied"
  by (simp add: mounted_def denied_def setupCamera_rejected_def console_error_def)

lemma click_denied: "step denied Click = Some denied"
  by (simp add: denied_def mounted_def startRecording_def recording_effect_def rerender_def)

lemma clicks_denied: "run denied (replicate n Click) = Some denied"
  by (induction n) (simp_all add: click_denied del: step.simps)

lemma run_to_recording: "run mounted [CameraGranted, Click] = Some recording"
  by (simp add: mounted_def recording_def handler_defs)

lemma run_to_three_frames:
  "run recording
     [EncodeDone ''data:image/png;base64,QQ=='', Tick,
      EncodeDone ''data:image/png;base64,Qg=='', Tick,
      EncodeDone ''data:image/png;base64,Qw=='', Render] = Some three_frames"
  by (simp add: mounted_def recording_def three_frames_def handler_defs js_index_def)

lemma run_to_shown_hello:
  "run three_frames [Click, Settled (Returned ''HELLO'')] = Some shown_hello"
  by (simp add: mounted_def recording_def three_frames_def shown_hello_def handler_defs)

lemma catch_block_keeps:
  "response (snd (catch_block e s)) = response s"
  "isRecording (snd (catch_block e s)) = isRecording s"
  "frameSequence (snd (catch_block e s)) = frameSequence s"
  "renderedFrames (snd (catch_block e s)) = renderedFrames s"
  "inflight (snd (catch_block e s)) = inflight s"
  "calls (snd (catch_block e s)) = calls s"
  "cameraPending (snd (catch_block e s)) = cameraPending s"
  "videoRef (snd (catch_block e s)) = videoRef s"
  "canvasRef (snd (catch_block e s)) = canvasRef s"
  by (simp_all add: catch_block_def console_error_def Let_def split: option.splits)

lemma catch_block_unexpected:
  "thrown_response e = None \<Longrightarrow>
   catch_block e s =
     (Normal, s\<lparr>console := console s @ [''Error calling Google Generative AI API:''],
                error := Some (''Unexpected error: '' @ render (thrown_message e) @
                               ''. Please try again.'')\<rparr>)"
  by (simp add: catch_block_def console_error_def)

lemma catch_block_structured:
  "thrown_response e = Some (ApiResponse (Some (ApiData (Some (ApiError m))))) \<Longrightarrow>
   catch_block e s =
     (Normal, s\<lparr>console := console s @ [''Error calling Google Generative AI API:'',
                                          ''API Response Error: [object Object]''],
                error := Some (''Error processing sign language: '' @ render m @
                               ''. Please try again.'')\<rparr>)"
  by (simp add: catch_block_def console_error_def envelope_message_def)

lemma settled_Returned:
  "settled (Returned t) s = (Normal, s\<lparr>response := t, isProcessing := False, isSending := False\<rparr>)"
  by (simp add: settled_def finally_block_def)

lemma settled_Threw:
  "snd (settled (Threw e) s) = finally_block (snd (catch_block e s))"
  "fst (settled (Threw e) s) = fst (catch_block e s)"
  by (simp_all add: settled_def split: prod.splits)

lemma settled_clears_flags:
  "\<not> isProcessing (snd (settled out s))" "\<not> isSending (snd (settled out s))"
  by (cases out; simp add: settled_Returned settled_Threw finally_block_def)+

lemma settled_keeps:
  "frameSequence (snd (settled out s)) = frameSequence s"
  "renderedFrames (snd (settled out s)) = renderedFrames s"
  "calls (snd (settled out s)) = calls s"
  "videoRef (snd (settled out s)) = videoRef s"
  "canvasRef (snd (settled out s)) = canvasRef s"
  by (cases out; simp add: settled_Returned settled_Threw finally_block_def catch_block_keeps)+

lemma stopRecording_fields:
  "isProcessing (stopRecording s) \<longleftrightarrow> renderedFrames s \<noteq> []"
  "error (stopRecording s) = error s"
  "response (stopRecording s) = (if renderedFrames s = [] then response s else [])"
  "frameSequence (stopRecording s) = frameSequence s"
  "renderedFrames (stopRecording s) = renderedFrames s"
  "\<not> isRecording (stopRecording s)"
  "videoRef (stopRecording s) = videoRef s"
  "canvasRef (stopRecording s) = canvasRef s"
  by (simp_all add: stopRecording_def sendVideoSequenceToGoogleGenerativeAI_def console_error_def)

lemma step_frames:
  assumes "step s e = Some s'" and "\<not> (e = Click \<and> \<not> isRecording s)"
  shows "frameSequence s' = frameSequence s @ arrivals [e]"
proof (cases e)
  case (Settled out)
  with assms show ?thesis
    by (auto simp add: settled_keeps split: if_splits)
next
  case Click
  with assms show ?thesis
    by (auto simp add: recording_effect_def rerender_def stopRecording_fields)
qed (use assms in \<open>auto simp add: handler_defs Let_def split: if_splits option.splits\<close>)

lemma arrivals_Cons: "arrivals (e # es) = arrivals [e] @ arrivals es"
  by (cases e) simp_all

lemma same_session_frames:
  "same_session s tr \<Longrightarrow>
   map_option frameSequence (run s tr) = Some (frameSequence s @ arrivals tr)"
proof (induction tr arbitrary: s)
  case Nil
  then show ?case by simp
next
  case (Cons e es)
  from Cons.prems obtain s' where
    st: "step s e = Some s'" and ns: "\<not> (e = Click \<and> \<not> isRecording s)"
    and rest: "same_session s' es"
    by (auto simp del: step.simps split: if_splits option.splits)
  from Cons.IH [OF rest] step_frames [OF st ns] st
  show ?case
    by (simp del: step.simps arrivals.simps add: arrivals_Cons [of e es])
qed

lemma quiet_mounted: "quiet mounted"
  by (simp add: quiet_def mounted_def)

lemma quiet_step:
  assumes "quiet s" and "step s e = Some s'"
    and "\<not> (e = Click \<and> \<not> isRecording s \<and> 0 < inflight s)"
  shows "quiet s'"
proof (cases e)
  case (Settled out)
  with assms show ?thesis
    by (cases out)
       (auto simp add: quiet_def settled_Returned settled_Threw finally_block_def
          catch_block_keeps split: if_splits)
next
  case Click
  with assms show ?thesis
    by (auto simp add: quiet_def handler_defs split: if_splits)
qed (use assms in \<open>auto simp add: quiet_def handler_defs Let_def split: if_splits option.splits\<close>)

lemma quiet_run:
  "quiet s \<Longrightarrow> no_overlap s tr \<Longrightarrow> run s tr = Some s' \<Longrightarrow> quiet s'"
proof (induction tr arbitrary: s)
  case Nil
  then show ?case by simp
next
  case (Cons e es)
  from Cons.prems(2) obtain s1 where
    st: "step s e = Some s1" and ok: "\<not> (e = Click \<and> \<not> isRecording s \<and> 0 < inflight s)"
    and rest: "no_overlap s1 es"
    by (auto simp del: step.simps split: if_splits option.splits)
  from Cons.prems(3) st have "run s1 es = Some s'" by (simp del: step.simps)
  with Cons.IH [OF quiet_step [OF Cons.prems(1) st ok] rest] show ?case .
qed

lemma wired_mounted: "wired mounted"
  by (simp add: wired_def mounted_def)

lemma wired_step:
  assumes "wired s" and "step s e = Some s'"
  shows "wired s'"
proof (cases e)
  case (Settled out)
  with assms show ?thesis
    by (auto simp add: wired_def settled_keeps split: if_splits)
next
  case Click
  with assms show ?thesis
    by (auto simp add: wired_def recording_effect_def rerender_def stopRecording_fields
        startRecording_def captureFrame_def)
qed (use assms in \<open>auto simp add: wired_def handler_defs Let_def split: if_splits option.splits\<close>)

lemma wired_run: "wired s \<Longrightarrow> run s tr = Some s' \<Longrightarrow> wired s'"
proof (induction tr arbitrary: s)
  case Nil
  then show ?case by simp
next
  case (Cons e es)
  from Cons.prems(2) obtain s1 where st: "step s e = Some s1" and r: "run s1 es = Some s'"
    by (auto simp del: step.simps split: option.splits)
  from Cons.IH [OF wired_step [OF Cons.prems(1) st] r] show ?case .
qed

lemma reachable_wired: "run mounted tr = Some s \<Longrightarrow> wired s"
  by (rule wired_run [OF wired_mounted])

lemma reachable_closure_empty:
  "run mounted tr = Some s \<Longrightarrow> frameSequence s = [] \<Longrightarrow> renderedFrames s = []"
  using reachable_wired [of tr s] by (simp add: wired_def)








subsection \<open>Batch submitter\<close>

text \<open>
  Claim C10. On the empty-batch return of the submitter the only change to the component
  state is that \<open>isProcessing\<close> is cleared (and one line is written to the console):
  \<open>error\<close>, \<open>response\<close>, \<open>frameSequence\<close> and \<open>isSending\<close> are as before, so what the
  panel showed before is what it shows afterwards, and no call is issued.
\<close>

theorem empty_batch_only_clears_processing:
  "sendVideoSequenceToGoogleGenerativeAI [] s =
     s\<lparr>isProcessing := False,
       console := console s @ [''Frame sequence must be present to send to the API'']\<rparr>
   \<and> error (sendVideoSequenceToGoogleGenerativeAI [] s) = error s
   \<and> response (sendVideoSequenceToGoogleGenerativeAI [] s) = response s
   \<and> frameSequence (sendVideoSequenceToGoogleGenerativeAI [] s) = frameSequence s
   \<and> isSending (sendVideoSequenceToGoogleGenerativeAI [] s) = isSending s
   \<and> isRecording (sendVideoSequenceToGoogleGenerativeAI [] s) = isRecording s
   \<and> calls (sendVideoSequenceToGoogleGenerativeAI [] s) = calls s
   \<and> \<not> isProcessing (sendVideoSequenceToGoogleGenerativeAI [] s)"
  by (simp add: sendVideoSequenceToGoogleGenerativeAI_def console_error_def)



text \<open>
  Claim C2, as the code has it. On success the submitter stores the returned text in
  \<open>response\<close>, clears both flags and leaves \<open>error\<close> as it is. \<open>error\<close> was cleared by the
  start of the session, so in a run where no recording is started while an earlier call is
  still under way, \<open>error\<close> is empty when a call succeeds, and afterwards the response is
  the text and no error is stored.
\<close>

theorem success_stores_text:
  assumes "no_overlap mounted tr" and "run mounted tr = Some s" and "0 < inflight s"
  shows "map_option response (step s (Settled (Returned t))) = Some t
       \<and> map_option error (step s (Settled (Returned t))) = Some None
       \<and> map_option isProcessing (step s (Settled (Returned t))) = Some False
       \<and> map_option isSending (step s (Settled (Returned t))) = Some False
       \<and> settled (Returned t) s0 =
           (Normal, s0\<lparr>response := t, isProcessing := False, isSending := False\<rparr>)
       \<and> error (snd (settled (Returned t) s0)) = error s0"
proof -
  from quiet_run [OF quiet_mounted assms(1,2)] assms(3) have "error s = None"
    by (simp add: quiet_def)
  with assms(3) show ?thesis
    by (simp add: settled_Returned)
qed

theorem success_stores_text_witness:
  "no_overlap mounted
     [CameraGranted, Click, EncodeDone ''data:image/png;base64,QQ=='', Render, Click,
      Settled (Threw (Thrown (Str ''Failed to fetch'') None)),
      Click, EncodeDone ''data:image/png;base64,Qg=='', Render, Click]
   \<and> map_option inflight (run mounted
     [CameraGranted, Click, EncodeDone ''data:image/png;base64,QQ=='', Render, Click,
      Settled (Threw (Thrown (Str ''Failed to fetch'') None)),
      Click, EncodeDone ''data:image/png;base64,Qg=='', Render, Click]) = Some 1
   \<and> map_option response (run mounted
     [CameraGranted, Click, EncodeDone ''data:image/png;base64,QQ=='', Render, Click,
      Settled (Threw (Thrown (Str ''Failed to fetch'') None)),
      Click, EncodeDone ''data:image/png;base64,Qg=='', Render, Click,
      Settled (Returned ''HELLO'')]) = Some ''HELLO''
   \<and> map_option error (run mounted
     [CameraGranted, Click, EncodeDone ''data:image/png;base64,QQ=='', Render, Click,
      Settled (Threw (Thrown (Str ''Failed to fetch'') None)),
      Click, EncodeDone ''data:image/png;base64,Qg=='', Render, Click,
      Settled (Returned ''HELLO'')]) = Some None"
proof -
  define tr where "tr =
     [CameraGranted, Click, EncodeDone ''data:image/png;base64,QQ=='', Render, Click,
      Settled (Threw (Thrown (Str ''Failed to fetch'') None)),
      Click, EncodeDone ''data:image/png;base64,Qg=='', Render, Click]"
  define s where "s = recording\<lparr>isRecording := False, isProcessing := True, isSending := True,
      frameSequence := [Str ''Qg==''], renderedFrames := [Str ''Qg==''],
      frameCaptureInterval := False, encodes := 0,
      calls := [request [Str ''QQ==''], request [Str ''Qg=='']], inflight := 1,
      console := [''Error calling Google Generative AI API:'']\<rparr>"
  have n: "no_overlap mounted tr"
    unfolding tr_def by (simp add: mounted_def handler_defs js_index_def)
  have r: "run mounted tr = Some s"
    unfolding tr_def s_def by (simp add: mounted_def recording_def handler_defs js_index_def)
  have i: "0 < inflight s" by (simp add: s_def)
  have a: "run mounted (tr @ [Settled (Returned ''HELLO'')]) = step s (Settled (Returned ''HELLO''))"
    by (simp add: run_append r del: step.simps split: option.splits)
  from success_stores_text [OF n r i, of "''HELLO''"] n r a
  show ?thesis
    unfolding tr_def by (simp add: s_def del: step.simps run.simps no_overlap.simps)
qed

text \<open>
  Claim C2 as stated has the submitter clear \<open>error\<close> on success. When a second recording
  is made while the first call is under way, the first call fails and the second succeeds,
  the message of the failure and the text are both stored, and the panel shows the message.
\<close>

theorem overlapping_attempts_leave_both:
  "map_option error (run mounted
     [CameraGranted, Click, EncodeDone ''data:image/png;base64,QQ=='', Render, Click,
      Click, EncodeDone ''data:image/png;base64,Qg=='', Render, Click,
      Settled (Threw (Thrown (Str ''Failed to fetch'') None)),
      Settled (Returned ''HELLO'')])
     = Some (Some ''Unexpected error: Failed to fetch. Please try again.'')
   \<and> map_option response (run mounted
     [CameraGranted, Click, EncodeDone ''data:image/png;base64,QQ=='', Render, Click,
      Click, EncodeDone ''data:image/png;base64,Qg=='', Render, Click,
      Settled (Threw (Thrown (Str ''Failed to fetch'') None)),
      Settled (Returned ''HELLO'')])
     = Some ''HELLO''
   \<and> map_option panel (run mounted
     [CameraGranted, Click, EncodeDone ''data:image/png;base64,QQ=='', Render, Click,
      Click, EncodeDone ''data:image/png;base64,Qg=='', Render, Click,
      Settled (Threw (Thrown (Str ''Failed to fetch'') None)),
      Settled (Returned ''HELLO'')])
     = Some (ErrorText ''Unexpected error: Failed to fetch. Please try again.'')"
  by (simp add: mounted_def handler_defs panel_def js_index_def)

text \<open>
  Claim C1, as the code has it. When \<open>stopRecording\<close> runs with no frame captured (none in
  the frames it closed over, which is the case in every state of a run in which the state
  cell holds none), no call is issued to the service and the submitter returns at once;
  the empty batch is reported on the console only: \<open>error\<close> and \<open>response\<close> are left as
  they are, and \<open>isProcessing\<close> is cleared.
\<close>

theorem stop_without_frames_logs_only:
  assumes "renderedFrames s = [] \<or> (frameSequence s = [] \<and> run mounted tr = Some s)"
  shows "stopRecording s =
           s\<lparr>isRecording := False, isProcessing := False,
             console := console s @ [''Frame sequence must be present to send to the API'']\<rparr>
         \<and> calls (stopRecording s) = calls s
         \<and> inflight (stopRecording s) = inflight s
         \<and> error (stopRecording s) = error s
         \<and> response (stopRecording s) = response s
         \<and> \<not> isProcessing (stopRecording s)"
proof -
  from assms have "renderedFrames s = []"
    using reachable_closure_empty by blast
  then show ?thesis
    by (simp add: stopRecording_def sendVideoSequenceToGoogleGenerativeAI_def console_error_def)
qed

theorem stop_without_frames_logs_only_witness:
  "frameSequence recording = []
   \<and> run mounted [CameraGranted, Click] = Some recording
   \<and> stopRecording recording =
       recording\<lparr>isRecording := False, isProcessing := False,
         console := [''Frame sequence must be present to send to the API'']\<rparr>
   \<and> calls (stopRecording recording) = []
   \<and> error (stopRecording recording) = None"
proof -
  have h: "frameSequence recording = []" by (simp add: recording_def mounted_def)
  have c: "console recording = []" "calls recording = []" "error recording = None"
    by (simp_all add: recording_def mounted_def)
  from h run_to_recording
  have "renderedFrames recording = []
        \<or> (frameSequence recording = [] \<and> run mounted [CameraGranted, Click] = Some recording)"
    by blast
  from stop_without_frames_logs_only [OF this] h c run_to_recording show ?thesis
    by (simp del: run.simps)
qed

text \<open>
  Claim C1 as stated asks that the empty batch be shown to the user as an error. After
  start and an immediate stop, \<open>error\<close> is still empty and the panel shows the (empty)
  response.
\<close>

theorem stop_without_frames_shows_no_error:
  "map_option frameSequence (run mounted [CameraGranted, Click]) = Some []
   \<and> map_option error (run mounted [CameraGranted, Click, Click]) = Some None
   \<and> map_option panel (run mounted [CameraGranted, Click, Click]) = Some (ResponseText [])
   \<and> map_option calls (run mounted [CameraGranted, Click, Click]) = Some []"
  by (simp add: mounted_def handler_defs panel_def)

text \<open>
  Claim C3, as the code has it. \<open>isProcessing\<close> is cleared at the end of every attempt,
  whatever the outcome of the call (the \<^verbatim>\<open>finally\<close> block also runs when the handler of
  the failure itself fails). \<open>stopRecording\<close> leaves it set exactly when the batch it hands
  over, the frames of the last render, is not empty, as the submitter does for any batch
  it is given; arrivals, captures, a start and a render leave the flag as it is; when the
  call settles, the flag is cleared together with storing the text (success) or the
  message (a failure without a response, or one with a complete envelope). With an empty
  batch the flag is cleared at once and neither \<open>response\<close> nor \<open>error\<close> changes.
\<close>

theorem processing_flag_lifecycle:
  "\<not> isProcessing (snd (settled out s))
   \<and> \<not> isSending (snd (settled out s))
   \<and> (isProcessing (stopRecording s) \<longleftrightarrow> renderedFrames s \<noteq> [])
   \<and> (isProcessing (sendVideoSequenceToGoogleGenerativeAI frames (s\<lparr>isProcessing := True\<rparr>))
        \<longleftrightarrow> frames \<noteq> [])
   \<and> isProcessing (onloadend r s) = isProcessing s
   \<and> isProcessing (captureFrame s) = isProcessing s
   \<and> isProcessing (startRecording s) = isProcessing s
   \<and> isProcessing (rerender s) = isProcessing s
   \<and> error (stopRecording s) = error s
   \<and> response (stopRecording s) = (if renderedFrames s = [] then response s else [])
   \<and> response (snd (settled (Returned t) s)) = t
   \<and> error (snd (settled (Returned t) s)) = error s
   \<and> response (snd (settled (Threw e) s)) = response s
   \<and> (thrown_response e = None \<longrightarrow>
        error (snd (settled (Threw e) s)) =
          Some (''Unexpected error: '' @ render (thrown_message e) @ ''. Please try again.''))
   \<and> (thrown_response e = Some (ApiResponse (Some (ApiData (Some (ApiError m))))) \<longrightarrow>
        error (snd (settled (Threw e) s)) =
          Some (''Error processing sign language: '' @ render m @ ''. Please try again.''))"
proof -
  have a: "isProcessing (onloadend r s) = isProcessing s"
    "isProcessing (captureFrame s) = isProcessing s"
    "isProcessing (startRecording s) = isProcessing s"
    "isProcessing (rerender s) = isProcessing s"
    "isProcessing (sendVideoSequenceToGoogleGenerativeAI frames (s\<lparr>isProcessing := True\<rparr>))
        \<longleftrightarrow> frames \<noteq> []"
    by (simp_all add: onloadend_def captureFrame_def startRecording_def rerender_def
        sendVideoSequenceToGoogleGenerativeAI_def console_error_def)
  have b: "response (snd (settled (Threw e) s)) = response s"
    by (simp add: settled_Threw finally_block_def catch_block_keeps)
  have c: "thrown_response e = None \<longrightarrow>
        error (snd (settled (Threw e) s)) =
          Some (''Unexpected error: '' @ render (thrown_message e) @ ''. Please try again.'')"
    by (simp add: settled_Threw finally_block_def catch_block_unexpected)
  have d: "thrown_response e = Some (ApiResponse (Some (ApiData (Some (ApiError m))))) \<longrightarrow>
        error (snd (settled (Threw e) s)) =
          Some (''Error processing sign language: '' @ render m @ ''. Please try again.'')"
    by (simp add: settled_Threw finally_block_def catch_block_structured)
  show ?thesis
    using a b c d settled_clears_flags [of out s] stopRecording_fields(1-3) [of s]
    by (simp add: settled_Returned)
qed

theorem processing_flag_lifecycle_witness:
  "thrown_response (Thrown (Str ''Failed to fetch'') None) = None
   \<and> error (snd (settled (Threw (Thrown (Str ''Failed to fetch'') None)) three_frames)) =
       Some ''Unexpected error: Failed to fetch. Please try again.''
   \<and> \<not> isProcessing (snd (settled (Threw (Thrown (Str ''Failed to fetch'') None)) three_frames))
   \<and> isProcessing (stopRecording three_frames)
   \<and> \<not> isProcessing (stopRecording recording)
   \<and> thrown_response
        (Thrown (Str ''Bad Request'')
           (Some (ApiResponse (Some (ApiData (Some (ApiError (Str ''quota exceeded''))))))))
       = Some (ApiResponse (Some (ApiData (Some (ApiError (Str ''quota exceeded''))))))
   \<and> error (snd (settled
        (Threw (Thrown (Str ''Bad Request'')
           (Some (ApiResponse (Some (ApiData (Some (ApiError (Str ''quota exceeded'')))))))))
        three_frames)) =
       Some ''Error processing sign language: quota exceeded. Please try again.''"
proof -
  have f: "renderedFrames three_frames \<noteq> []" "renderedFrames recording = []"
    by (simp_all add: three_frames_def recording_def mounted_def)
  from processing_flag_lifecycle
         [of "Threw (Thrown (Str ''Failed to fetch'') None)" three_frames _ _ _
             "Thrown (Str ''Failed to fetch'') None"]
       processing_flag_lifecycle
         [of _ three_frames _ _ _
             "Thrown (Str ''Bad Request'')
                (Some (ApiResponse (Some (ApiData (Some (ApiError (Str ''quota exceeded'')))))))"
             "Str ''quota exceeded''"]
       processing_flag_lifecycle [of _ recording] f
  show ?thesis by simp
qed

text \<open>
  Claim C3 as stated has the flag set until a result or an error is set. After start and
  an immediate stop the flag is clear again while neither has been set; the same happens
  when a frame has arrived but has not been rendered when the button is pressed.
\<close>

theorem empty_stop_clears_flag_with_nothing_set:
  "map_option isProcessing (run mounted [CameraGranted, Click, Click]) = Some False
   \<and> map_option error (run mounted [CameraGranted, Click, Click]) = Some None
   \<and> map_option response (run mounted [CameraGranted, Click, Click]) = Some []
   \<and> map_option isProcessing
       (run mounted [CameraGranted, Click, EncodeDone ''data:image/png;base64,QQ=='', Click])
       = Some False
   \<and> map_option frameSequence
       (run mounted [CameraGranted, Click, EncodeDone ''data:image/png;base64,QQ=='', Click])
       = Some [Str ''QQ=='']
   \<and> map_option error
       (run mounted [CameraGranted, Click, EncodeDone ''data:image/png;base64,QQ=='', Click])
       = Some None
   \<and> map_option response
       (run mounted [CameraGranted, Click, EncodeDone ''data:image/png;base64,QQ=='', Click])
       = Some []
   \<and> map_option calls
       (run mounted [CameraGranted, Click, EncodeDone ''data:image/png;base64,QQ=='', Click])
       = Some []"
  by (simp add: mounted_def handler_defs js_index_def)

text \<open>
  Claim C4 asks that every failed submission sets \<open>error\<close>. When the thrown value has a
  \<^verbatim>\<open>response\<close> without \<^verbatim>\<open>data\<close>, the handler fails while it builds the message:
  \<open>error\<close> stays empty and the panel shows the empty response.
\<close>

theorem response_without_data_sets_no_error:
  "map_option error
     (run mounted [CameraGranted, Click, EncodeDone ''data:image/png;base64,QQ=='', Render,
                   Click, Settled (Threw (Thrown (Str ''blocked'') (Some (ApiResponse None))))])
     = Some None
   \<and> map_option panel
     (run mounted [CameraGranted, Click, EncodeDone ''data:image/png;base64,QQ=='', Render,
                   Click, Settled (Threw (Thrown (Str ''blocked'') (Some (ApiResponse None))))])
     = Some (ResponseText [])
   \<and> fst (catch_block (Thrown (Str ''blocked'') (Some (ApiResponse None))) recording) = TypeError"
  by (simp add: mounted_def recording_def handler_defs panel_def js_index_def)

subsection \<open>Sessions\<close>

text \<open>
  Claim C5, as the code has it. When the component is recording and holds the frames
  \<open>a\<close>, \<open>b\<close>, \<open>c\<close>, and after the stop the service answers \<open>HELLO\<close>, then the response is
  \<open>HELLO\<close>, \<open>isProcessing\<close> is clear, and \<open>frameSequence\<close> still holds the three frames.
  The service can answer as soon as the stop had a frame in its render.
\<close>

theorem hello_scenario_keeps_frames:
  assumes "isRecording s" and "frameSequence s = [a, b, c]"
  shows "(renderedFrames s \<noteq> [] \<longrightarrow>
            run s [Click, Settled (Returned ''HELLO'')] \<noteq> None)
       \<and> (\<forall>s'. run s [Click, Settled (Returned ''HELLO'')] = Some s' \<longrightarrow>
             response s' = ''HELLO'' \<and> \<not> isProcessing s' \<and> \<not> isSending s'
             \<and> \<not> isRecording s' \<and> frameSequence s' = [a, b, c])"
  using assms by (auto simp add: handler_defs split: if_splits)

theorem hello_scenario_keeps_frames_witness:
  "run mounted
     [CameraGranted, Click,
      EncodeDone ''data:image/png;base64,QQ=='', Tick,
      EncodeDone ''data:image/png;base64,Qg=='', Tick,
      EncodeDone ''data:image/png;base64,Qw=='', Render] = Some three_frames
   \<and> isRecording three_frames
   \<and> frameSequence three_frames = [Str ''QQ=='', Str ''Qg=='', Str ''Qw=='']
   \<and> renderedFrames three_frames \<noteq> []
   \<and> run three_frames [Click, Settled (Returned ''HELLO'')] = Some shown_hello
   \<and> response shown_hello = ''HELLO''
   \<and> \<not> isProcessing shown_hello
   \<and> frameSequence shown_hello = [Str ''QQ=='', Str ''Qg=='', Str ''Qw=='']"
proof -
  have r: "run mounted
     ([CameraGranted, Click] @
      [EncodeDone ''data:image/png;base64,QQ=='', Tick,
       EncodeDone ''data:image/png;base64,Qg=='', Tick,
       EncodeDone ''data:image/png;base64,Qw=='', Render]) = Some three_frames"
    unfolding run_append by (simp only: run_to_recording run_to_three_frames option.case)
  have h1: "isRecording three_frames"
    by (simp add: three_frames_def recording_def)
  have h2: "frameSequence three_frames = [Str ''QQ=='', Str ''Qg=='', Str ''Qw=='']"
    by (simp add: three_frames_def)
  have h3: "renderedFrames three_frames \<noteq> []"
    by (simp add: three_frames_def)
  from hello_scenario_keeps_frames [OF h1 h2] run_to_shown_hello
  have "response shown_hello = ''HELLO'' \<and> \<not> isProcessing shown_hello
        \<and> frameSequence shown_hello = [Str ''QQ=='', Str ''Qg=='', Str ''Qw=='']"
    by blast
  with r h1 h2 h3 run_to_shown_hello show ?thesis by (simp del: run.simps)
qed

text \<open>
  Claim C5 as stated has the frames discarded at the end of the scenario; they are still
  in the state. The scenario is run twice: with the capture made by the start itself as
  the first of the three, and with three ticks of the interval after it (one encode is then
  still under way at the end).
\<close>

theorem hello_scenario_frames_not_discarded:
  "map_option frameSequence
     (run mounted
        [CameraGranted, Click,
         EncodeDone ''data:image/png;base64,QQ=='', Tick,
         EncodeDone ''data:image/png;base64,Qg=='', Tick,
         EncodeDone ''data:image/png;base64,Qw=='', Render,
         Click, Settled (Returned ''HELLO'')])
     = Some [Str ''QQ=='', Str ''Qg=='', Str ''Qw=='']
   \<and> map_option frameSequence
     (run mounted
        [CameraGranted, Click,
         Tick, EncodeDone ''data:image/png;base64,QQ=='',
         Tick, EncodeDone ''data:image/png;base64,Qg=='',
         Tick, EncodeDone ''data:image/png;base64,Qw=='', Render,
         Click, Settled (Returned ''HELLO'')])
     = Some [Str ''QQ=='', Str ''Qg=='', Str ''Qw=='']
   \<and> map_option response
     (run mounted
        [CameraGranted, Click,
         Tick, EncodeDone ''data:image/png;base64,QQ=='',
         Tick, EncodeDone ''data:image/png;base64,Qg=='',
         Tick, EncodeDone ''data:image/png;base64,Qw=='', Render,
         Click, Settled (Returned ''HELLO'')])
     = Some ''HELLO''"
proof -
  have a: "run mounted
        ([CameraGranted, Click] @
         [EncodeDone ''data:image/png;base64,QQ=='', Tick,
          EncodeDone ''data:image/png;base64,Qg=='', Tick,
          EncodeDone ''data:image/png;base64,Qw=='', Render] @
         [Click, Settled (Returned ''HELLO'')]) = Some shown_hello"
    unfolding run_append
    by (simp only: run_to_recording run_to_three_frames run_to_shown_hello option.case)
  have b: "run recording
         [Tick, EncodeDone ''data:image/png;base64,QQ=='',
          Tick, EncodeDone ''data:image/png;base64,Qg=='',
          Tick, EncodeDone ''data:image/png;base64,Qw=='', Render,
          Click, Settled (Returned ''HELLO'')] = Some (shown_hello\<lparr>encodes := 1\<rparr>)"
    by (simp add: mounted_def recording_def three_frames_def shown_hello_def handler_defs
        js_index_def)
  have c: "run mounted
        ([CameraGranted, Click] @
         [Tick, EncodeDone ''data:image/png;base64,QQ=='',
          Tick, EncodeDone ''data:image/png;base64,Qg=='',
          Tick, EncodeDone ''data:image/png;base64,Qw=='', Render,
          Click, Settled (Returned ''HELLO'')]) = Some (shown_hello\<lparr>encodes := 1\<rparr>)"
    unfolding run_append by (simp only: run_to_recording b option.case)
  from a c show ?thesis by (simp add: shown_hello_def three_frames_def)
qed

text \<open>
  Claim C8. In a run that stays within one recording session the frame sequence only
  grows at its end: the final sequence is the initial one followed by the frames of the
  completed encodes, one per completion, in the order in which the encodes completed.
\<close>

theorem frames_append_only:
  assumes "same_session s tr"
  shows "map_option frameSequence (run s tr) = Some (frameSequence s @ arrivals tr)
       \<and> frameSequence (onloadend r s) = frameSequence s @ [js_index (js_split CHR '','' r) 1]
       \<and> arrivals (tr @ [EncodeDone r]) = arrivals tr @ [js_index (js_split CHR '','' r) 1]"
proof -
  have "arrivals (xs @ ys) = arrivals xs @ arrivals ys" for xs ys
    by (induction xs rule: arrivals.induct) simp_all
  then show ?thesis
    using same_session_frames [OF assms] by (simp add: onloadend_def)
qed

theorem frames_append_only_witness:
  "same_session recording
     [EncodeDone ''data:image/png;base64,QQ=='', Tick,
      EncodeDone ''data:image/png;base64,Qg=='', Tick, Click,
      EncodeDone ''data:image/png;base64,Qw=='']
   \<and> map_option frameSequence
       (run recording
          [EncodeDone ''data:image/png;base64,QQ=='', Tick,
           EncodeDone ''data:image/png;base64,Qg=='', Tick, Click,
           EncodeDone ''data:image/png;base64,Qw==''])
       = Some [Str ''QQ=='', Str ''Qg=='', Str ''Qw=='']"
proof -
  have h: "same_session recording
     [EncodeDone ''data:image/png;base64,QQ=='', Tick,
      EncodeDone ''data:image/png;base64,Qg=='', Tick, Click,
      EncodeDone ''data:image/png;base64,Qw=='']"
    by (simp add: recording_def mounted_def handler_defs)
  have f: "frameSequence recording = []" by (simp add: recording_def mounted_def)
  from frames_append_only [OF h] h f show ?thesis
    by (simp add: js_index_def del: run.simps same_session.simps)
qed

text \<open>
  Claim C6, as the code has it. In every state of a run in which a stream is bound to the
  video element, pressing the button while not recording clears \<open>frameSequence\<close> and
  \<open>error\<close>, sets \<open>isRecording\<close>, starts one capture and arms the interval. It leaves
  \<open>response\<close> as it is: the earlier result is cleared when the next non-empty batch,
  whatever its length, is submitted, which is before the result of that batch arrives.
  Without a bound stream \<open>startRecording\<close> does nothing.
\<close>

theorem start_with_camera_bound:
  assumes "run mounted tr = Some s" and "videoRef s = Some True" and "\<not> isRecording s"
  shows "step s Click =
           Some (s\<lparr>isRecording := True, error := None, frameSequence := [],
                   renderedFrames := [], encodes := Suc (encodes s),
                   frameCaptureInterval := True\<rparr>)
       \<and> map_option response (step s Click) = Some (response s)
       \<and> (frames \<noteq> [] \<longrightarrow> response (sendVideoSequenceToGoogleGenerativeAI frames u) = [])
       \<and> (renderedFrames u \<noteq> [] \<longrightarrow>
            response (stopRecording u) = [] \<and> isProcessing (stopRecording u))
       \<and> (videoRef u \<noteq> Some True \<longrightarrow> startRecording u = u)"
proof -
  from reachable_wired [OF assms(1)] have "canvasRef s" by (simp add: wired_def)
  with assms(2,3) show ?thesis
    by (simp add: handler_defs)
qed

theorem start_with_camera_bound_witness:
  "run mounted
     [CameraGranted, Click,
      EncodeDone ''data:image/png;base64,QQ=='', Tick,
      EncodeDone ''data:image/png;base64,Qg=='', Tick,
      EncodeDone ''data:image/png;base64,Qw=='', Render,
      Click, Settled (Returned ''HELLO'')] = Some shown_hello
   \<and> videoRef shown_hello = Some True \<and> \<not> isRecording shown_hello
   \<and> error shown_hello = None \<and> response shown_hello = ''HELLO''
   \<and> step shown_hello Click =
        Some (shown_hello\<lparr>isRecording := True, error := None, frameSequence := [],
                renderedFrames := [], encodes := 1, frameCaptureInterval := True\<rparr>)
   \<and> map_option response (step shown_hello Click) = Some ''HELLO''
   \<and> [Str ''QQ==''] \<noteq> []
   \<and> response (sendVideoSequenceToGoogleGenerativeAI [Str ''QQ==''] shown_hello) = []
   \<and> renderedFrames three_frames \<noteq> []
   \<and> response (stopRecording three_frames) = []
   \<and> videoRef denied \<noteq> Some True \<and> startRecording denied = denied"
proof -
  have r: "run mounted
        ([CameraGranted, Click] @
         [EncodeDone ''data:image/png;base64,QQ=='', Tick,
          EncodeDone ''data:image/png;base64,Qg=='', Tick,
          EncodeDone ''data:image/png;base64,Qw=='', Render] @
         [Click, Settled (Returned ''HELLO'')]) = Some shown_hello"
    unfolding run_append
    by (simp only: run_to_recording run_to_three_frames run_to_shown_hello option.case)
  then have r': "run mounted
     [CameraGranted, Click,
      EncodeDone ''data:image/png;base64,QQ=='', Tick,
      EncodeDone ''data:image/png;base64,Qg=='', Tick,
      EncodeDone ''data:image/png;base64,Qw=='', Render,
      Click, Settled (Returned ''HELLO'')] = Some shown_hello"
    by (simp del: run.simps)
  have h: "videoRef shown_hello = Some True" "\<not> isRecording shown_hello"
    by (simp_all add: shown_hello_def three_frames_def recording_def mounted_def)
  have v: "error shown_hello = None" "response shown_hello = ''HELLO''" "encodes shown_hello = 0"
    "renderedFrames three_frames \<noteq> []" "videoRef denied \<noteq> Some True"
    by (simp_all add: shown_hello_def three_frames_def recording_def mounted_def denied_def)
  from start_with_camera_bound [OF r' h, of "[Str ''QQ=='']" shown_hello]
       start_with_camera_bound [OF r' h, of _ three_frames]
       start_with_camera_bound [OF r' h, of _ denied] r' h v
  show ?thesis by (simp del: step.simps run.simps)
qed

text \<open>
  Claim C6 as stated holds of every start. Without a bound stream the start has no effect
  (not recording, the error still there, no capture), and a start after a result leaves
  that result in the state and on the panel.
\<close>

theorem start_is_guarded_and_keeps_result:
  "map_option isRecording (run mounted [CameraDenied, Click]) = Some False
   \<and> map_option error (run mounted [CameraDenied, Click]) = Some (Some camera_message)
   \<and> map_option encodes (run mounted [CameraDenied, Click]) = Some 0
   \<and> map_option response
       (run mounted [CameraGranted, Click, EncodeDone ''data:image/png;base64,QQ=='', Render,
                     Click, Settled (Returned ''HELLO''), Click]) = Some ''HELLO''
   \<and> map_option panel
       (run mounted [CameraGranted, Click, EncodeDone ''data:image/png;base64,QQ=='', Render,
                     Click, Settled (Returned ''HELLO''), Click]) = Some (ResponseText ''HELLO'')"
  by (simp add: mounted_def handler_defs panel_def js_index_def)

subsection \<open>Camera source\<close>

text \<open>
  Claim C9. When the camera request fails, \<open>error\<close> is set to the message for the user and
  nothing else of the component state changes; as long as no stream is bound to the video
  element, \<open>startRecording\<close> does nothing, so after the refusal any number of presses of
  the button leaves the component idle, showing the message.
\<close>

theorem camera_failure_leaves_session_idle:
  "setupCamera_rejected s =
     s\<lparr>error := Some camera_message, console := console s @ [''Error accessing camera:'']\<rparr>
   \<and> (videoRef s \<noteq> Some True \<longrightarrow> startRecording s = s)
   \<and> run mounted (CameraDenied # replicate n Click) = Some denied
   \<and> \<not> isRecording denied \<and> \<not> isProcessing denied \<and> \<not> frameCaptureInterval denied
   \<and> encodes denied = 0 \<and> calls denied = [] \<and> videoRef denied = Some False
   \<and> panel denied = ErrorText camera_message"
proof -
  have a: "setupCamera_rejected s =
     s\<lparr>error := Some camera_message, console := console s @ [''Error accessing camera:'']\<rparr>"
    by (simp add: setupCamera_rejected_def console_error_def)
  have b: "run mounted (CameraDenied # replicate n Click) = Some denied"
    by (simp add: step_denied clicks_denied del: step.simps)
  have c: "panel denied = ErrorText camera_message"
    by (simp add: panel_def denied_def mounted_def camera_message_def)
  show ?thesis
    using a b c by (simp add: startRecording_unbound) (simp add: denied_def mounted_def)
qed

theorem camera_failure_leaves_session_idle_witness:
  "videoRef denied \<noteq> Some True \<and> startRecording denied = denied
   \<and> run mounted [CameraDenied, Click, Click] = Some denied"
proof -
  have h: "videoRef denied \<noteq> Some True" by (simp add: denied_def mounted_def)
  have r: "replicate 2 Click = [Click, Click]" by (simp add: numeral_2_eq_2)
  from camera_failure_leaves_session_idle [of denied 2] h r show ?thesis by simp
qed

end
